theory Spec2Isabelle
  imports Complex_Main
begin

section \<open>Python values and faults\<close>

text \<open>
  Faults of the Python code are values. \<open>AttributeError\<close>, \<open>KeyError\<close>, \<open>ValueError\<close>,
  \<open>ZeroDivisionError\<close> and \<open>OverflowError\<close> are the built-in exceptions the modules can
  raise. \<open>NonRealResult\<close> stands for a power with a negative base and a fractional
  exponent, which Python answers with a complex number. \<open>MissingDataError\<close> and
  \<open>RegistrationAfterFreeze\<close> are the two faults named by the specification.
  \<open>MissingDataError\<close> is the fatal fault of a mandatory parameter that has no value; the
  code has no class of that name, and the data check and Pyomo both report the fault as a
  Python \<open>ValueError\<close>. Here \<open>ValueError\<close> is kept for a value or a constraint that Pyomo
  refuses. Numbers are real numbers, except in the section on double precision.
\<close>

datatype error =
    AttributeError
  | KeyError
  | ValueError
  | ZeroDivisionError
  | OverflowError
  | NonRealResult
  | MissingDataError
  | RegistrationAfterFreeze

type_synonym 'a result = "error + 'a"

definition bindE :: "'a result \<Rightarrow> ('a \<Rightarrow> 'b result) \<Rightarrow> 'b result" where
  "bindE r f = (case r of Inl e \<Rightarrow> Inl e | Inr v \<Rightarrow> f v)"

text \<open>True division \<open>a / b\<close> (the modules import \<open>division\<close> from \<open>__future__\<close>).\<close>

definition py_div :: "real \<Rightarrow> real \<Rightarrow> real result" where
  "py_div a b = (if b = 0 then Inl ZeroDivisionError else Inr (a / b))"

text \<open>
  The power operator \<open>b ** e\<close>: zero to a negative power raises, an integral exponent is a
  repeated product or its inverse, a negative base with a fractional exponent leaves the
  reals, and otherwise it is the real power.
\<close>

definition py_pow :: "real \<Rightarrow> real \<Rightarrow> real result" where
  "py_pow b e =
     (if b = 0 \<and> e < 0 then Inl ZeroDivisionError
      else if e = of_int \<lfloor>e\<rfloor> then Inr (b powi \<lfloor>e\<rfloor>)
      else if b < 0 then Inl NonRealResult
      else Inr (b powr e))"

text \<open>The built-in \<open>sum\<close> over a generator: start at 0, add from the left, stop at the
  first term that raises.\<close>

fun py_sum_from :: "real \<Rightarrow> real result list \<Rightarrow> real result" where
  "py_sum_from acc [] = Inr acc"
| "py_sum_from acc (x # xs) =
     (case x of Inl e \<Rightarrow> Inl e | Inr v \<Rightarrow> py_sum_from (acc + v) xs)"

definition py_sum :: "real result list \<Rightarrow> real result" where
  "py_sum xs = py_sum_from 0 xs"

section \<open>financials: time value of money\<close>

definition uniform_series_to_present_value :: "real \<Rightarrow> real \<Rightarrow> real result" where
  "uniform_series_to_present_value dr t =
     (if dr = 0 then Inr t
      else bindE (py_pow (1 + dr) (- t)) (\<lambda>pw.
           bindE (py_div (1 - pw) dr) (\<lambda>q.
           Inr (q * (1 + dr)))))"

definition future_to_present_value :: "real \<Rightarrow> real \<Rightarrow> real result" where
  "future_to_present_value dr t = py_pow (1 + dr) (- t)"


section \<open>The time-value functions in double precision\<close>







section \<open>The model object\<close>

type_synonym zone = string
type_synonym timepoint = string
type_synonym period = string

text \<open>An index of a model component: a timepoint, a period, or a (zone, timepoint) pair.\<close>

datatype index = IdxT timepoint | IdxP period | IdxZT zone timepoint

text \<open>
  What indexing a component yields: a parameter yields a plain Python number, a variable
  or an expression yields a Pyomo object.
\<close>

datatype component_kind = NumericParam | ModelExpression

text \<open>
  The Pyomo model object, as the two modules use it. The timescale fields are supplied by
  the timescales module. A dynamic list is \<open>None\<close> as long as the attribute does not exist on
  the object. A scalar parameter is \<open>None\<close> when no value was loaded for it, and
  \<open>zone_demand_mw\<close> has a value only at the loaded (zone, timepoint) pairs.
  \<open>components\<close> gives the named, indexed quantities that \<open>getattr(m, name)[index]\<close> reads,
  by their values under one fixed assignment of the decision variables, and
  \<open>component_kind\<close> tells which of them are parameters.
  \<open>declared\<close> lists the component names that the module functions have attached so far.
\<close>

record model =
  PERIODS :: "period list"
  TIMEPOINTS :: "timepoint list"
  TPS_IN_PERIOD :: "period \<Rightarrow> timepoint list"
  tp_weight :: "timepoint \<Rightarrow> real"
  tp_weight_in_year :: "timepoint \<Rightarrow> real"
  tp_period :: "timepoint \<Rightarrow> period"
  period_length_years :: "period \<Rightarrow> real"
  LOAD_ZONES :: "zone list"
  zone_demand_mw :: "zone \<times> timepoint \<Rightarrow> real option"
  base_financial_year :: "real option"
  dollar_year :: "real option"
  discount_rate :: "real option"
  Zone_Power_Injections :: "string list option"
  Zone_Power_Withdrawals :: "string list option"
  Distributed_Power_Withdrawals :: "string list option"
  Cost_Components_Per_TP :: "string list option"
  Cost_Components_Per_Period :: "string list option"
  components :: "string \<Rightarrow> (index \<Rightarrow> real option) option"
  component_kind :: "string \<Rightarrow> component_kind"
  declared :: "string list"

text \<open>Reading an attribute that may not exist.\<close>

definition attr :: "'a option \<Rightarrow> 'a result" where
  "attr a = (case a of None \<Rightarrow> Inl AttributeError | Some v \<Rightarrow> Inr v)"

text \<open>\<open>getattr(m, name)[index]\<close>.\<close>

definition component_at :: "model \<Rightarrow> string \<Rightarrow> index \<Rightarrow> real result" where
  "component_at m name i =
     (case components m name of
        None \<Rightarrow> Inl AttributeError
      | Some c \<Rightarrow> (case c i of None \<Rightarrow> Inl KeyError | Some v \<Rightarrow> Inr v))"

text \<open>The value of a parameter: reading a parameter that has none is the fatal fault of
  missing data.\<close>

definition param_value :: "real option \<Rightarrow> real result" where
  "param_value a = (case a of None \<Rightarrow> Inl MissingDataError | Some v \<Rightarrow> Inr v)"

text \<open>\<open>within=NonNegativeReals\<close>: a value outside the domain is refused with \<open>ValueError\<close>.\<close>

definition within_NonNegativeReals :: "real \<Rightarrow> real result" where
  "within_NonNegativeReals v = (if v < 0 then Inl ValueError else Inr v)"

section \<open>balancing.load_zones\<close>

definition load_zones_define_dynamic_lists :: "model \<Rightarrow> model" where
  "load_zones_define_dynamic_lists mdl =
     mdl\<lparr>Zone_Power_Injections := Some [], Zone_Power_Withdrawals := Some []\<rparr>"

definition ZONE_TIMEPOINTS :: "model \<Rightarrow> (zone \<times> timepoint) list" where
  "ZONE_TIMEPOINTS m = List.product (LOAD_ZONES m) (TIMEPOINTS m)"

text \<open>
  \<open>define_components\<close> of load_zones: the declarations, then the registration of the demand
  (the \<open>try\<close> appends to the distributed list, the handler of \<open>AttributeError\<close> to the
  central one), then the declaration of the derived total. The data check declared here
  runs when the instance is constructed and takes no part in the registration.
\<close>

definition load_zones_define_components :: "model \<Rightarrow> model result" where
  "load_zones_define_components mdl =
     (let mdl1 = mdl\<lparr>declared := declared mdl @ [''LOAD_ZONES'', ''ZONE_TIMEPOINTS'', ''zone_demand_mw'']\<rparr>
      in bindE
           (case Distributed_Power_Withdrawals mdl1 of
              Some l \<Rightarrow> Inr (mdl1\<lparr>Distributed_Power_Withdrawals := Some (l @ [''zone_demand_mw''])\<rparr>)
            | None \<Rightarrow>
                (case Zone_Power_Withdrawals mdl1 of
                   Some l \<Rightarrow> Inr (mdl1\<lparr>Zone_Power_Withdrawals := Some (l @ [''zone_demand_mw''])\<rparr>)
                 | None \<Rightarrow> Inl AttributeError))
           (\<lambda>mdl2. Inr (mdl2\<lparr>declared := declared mdl2 @ [''zone_total_demand_in_period_mwh'']\<rparr>)))"

text \<open>\<open>m.zone_demand_mw[z, t]\<close>: a pair without a value is missing data.\<close>

definition zone_demand_at :: "model \<Rightarrow> zone \<Rightarrow> timepoint \<Rightarrow> real result" where
  "zone_demand_at m z t = param_value (zone_demand_mw m (z, t))"

definition zone_total_demand_in_period_mwh :: "model \<Rightarrow> zone \<Rightarrow> period \<Rightarrow> real result" where
  "zone_total_demand_in_period_mwh m z p =
     (if z \<in> set (LOAD_ZONES m) \<and> p \<in> set (PERIODS m)
      then bindE
             (py_sum (map (\<lambda>t. bindE (zone_demand_at m z t) (\<lambda>d. Inr (d * tp_weight m t)))
                          (TPS_IN_PERIOD m p)))
             within_NonNegativeReals
      else Inl KeyError)"

datatype constraint = Equality real real

text \<open>
  A Python \<open>sum\<close> over the named components is a plain number when every one of them is a
  parameter (in particular when there is none: the sum is then the integer 0); with a
  variable or an expression among them it is a Pyomo expression.
\<close>

definition plain_number_sum :: "model \<Rightarrow> string list \<Rightarrow> bool" where
  "plain_number_sum m cs = list_all (\<lambda>c. component_kind m c = NumericParam) cs"

definition load_zones_define_dynamic_components :: "model \<Rightarrow> model" where
  "load_zones_define_dynamic_components mdl =
     mdl\<lparr>declared := declared mdl @ [''Zone_Energy_Balance'']\<rparr>"

text \<open>
  The rule of \<open>Zone_Energy_Balance\<close>. Comparing two plain numbers with \<open>==\<close> gives a
  Python boolean, which Pyomo refuses as a constraint with \<open>ValueError\<close>; with a Pyomo
  expression on either side the comparison is an equality constraint.
\<close>

definition Zone_Energy_Balance :: "model \<Rightarrow> zone \<Rightarrow> timepoint \<Rightarrow> constraint result" where
  "Zone_Energy_Balance m z t =
     (if (z, t) \<in> set (ZONE_TIMEPOINTS m)
      then bindE (attr (Zone_Power_Injections m)) (\<lambda>injs.
           bindE (py_sum (map (\<lambda>component. component_at m component (IdxZT z t)) injs)) (\<lambda>lhs.
           bindE (attr (Zone_Power_Withdrawals m)) (\<lambda>wd.
           bindE (py_sum (map (\<lambda>component. component_at m component (IdxZT z t)) wd)) (\<lambda>rhs.
           if plain_number_sum m injs \<and> plain_number_sum m wd then Inl ValueError
           else Inr (Equality lhs rhs)))))
      else Inl KeyError)"

section \<open>financials: the model components\<close>

definition financials_define_dynamic_lists :: "model \<Rightarrow> model" where
  "financials_define_dynamic_lists mdl =
     mdl\<lparr>Cost_Components_Per_TP := Some [], Cost_Components_Per_Period := Some []\<rparr>"

text \<open>
  Modelled from the spec: \<open>min_data_check\<close> lives in the utilities module, which is not among
  the sources. By the specification, a mandatory parameter without a value is a fatal
  \<open>MissingDataError\<close>. Here it is given the values of the scalar parameters it is called on.
\<close>

definition min_data_check :: "real option list \<Rightarrow> unit result" where
  "min_data_check ps = (if None \<in> set ps then Inl MissingDataError else Inr ())"

text \<open>A loaded scalar parameter is checked against its domain when it has a value.\<close>

definition scalar_param_domain :: "real option \<Rightarrow> unit result" where
  "scalar_param_domain a =
     (case a of None \<Rightarrow> Inr () | Some v \<Rightarrow> bindE (within_NonNegativeReals v) (\<lambda>_. Inr ()))"

definition bring_annual_costs_to_base_year :: "model \<Rightarrow> period \<Rightarrow> real result" where
  "bring_annual_costs_to_base_year m p =
     (if p \<in> set (PERIODS m)
      then bindE (param_value (discount_rate m)) (\<lambda>dr.
           bindE (uniform_series_to_present_value dr (period_length_years m p)) (\<lambda>u.
           bindE (param_value (dollar_year m)) (\<lambda>dy.
           bindE (param_value (base_financial_year m)) (\<lambda>bfy.
           bindE (future_to_present_value dr (dy - bfy)) (\<lambda>f.
           within_NonNegativeReals (u * f))))))
      else Inl KeyError)"

definition bring_timepoint_costs_to_base_year :: "model \<Rightarrow> timepoint \<Rightarrow> real result" where
  "bring_timepoint_costs_to_base_year m t =
     (if t \<in> set (TIMEPOINTS m)
      then bindE (bring_annual_costs_to_base_year m (tp_period m t)) (\<lambda>b.
           within_NonNegativeReals (b * tp_weight_in_year m t))
      else Inl KeyError)"

text \<open>Running a list of checks in order, stopping at the first fault.\<close>

fun all_ok :: "'a result list \<Rightarrow> unit result" where
  "all_ok [] = Inr ()"
| "all_ok (x # xs) = (case x of Inl e \<Rightarrow> Inl e | Inr _ \<Rightarrow> all_ok xs)"

text \<open>
  The construction of the components that \<open>define_components\<close> of financials declares, in
  declaration order: the three scalar parameters, the data check on
  \<open>base_financial_year\<close> and \<open>discount_rate\<close>, then the two derived parameters over
  their index sets.
\<close>

definition financials_construct :: "model \<Rightarrow> unit result" where
  "financials_construct m =
     bindE (scalar_param_domain (base_financial_year m)) (\<lambda>_.
     bindE (scalar_param_domain (dollar_year m)) (\<lambda>_.
     bindE (scalar_param_domain (discount_rate m)) (\<lambda>_.
     bindE (min_data_check [base_financial_year m, discount_rate m]) (\<lambda>_.
     bindE (all_ok (map (bring_annual_costs_to_base_year m) (PERIODS m))) (\<lambda>_.
     all_ok (map (bring_timepoint_costs_to_base_year m) (TIMEPOINTS m)))))))"

definition calc_tp_costs_in_period :: "model \<Rightarrow> timepoint \<Rightarrow> real result" where
  "calc_tp_costs_in_period m t =
     bindE (attr (Cost_Components_Per_TP m)) (\<lambda>cs.
     py_sum (map (\<lambda>tp_cost. bindE (component_at m tp_cost (IdxT t))
                                (\<lambda>v. Inr (v * tp_weight_in_year m t))) cs))"

definition calc_annual_costs_in_period :: "model \<Rightarrow> period \<Rightarrow> real result" where
  "calc_annual_costs_in_period m p =
     bindE (attr (Cost_Components_Per_Period m)) (\<lambda>cs.
     py_sum (map (\<lambda>annual_cost. component_at m annual_cost (IdxP p)) cs))"

definition calc_sys_costs_per_period :: "model \<Rightarrow> period \<Rightarrow> real result" where
  "calc_sys_costs_per_period m p =
     bindE (calc_annual_costs_in_period m p) (\<lambda>a.
     bindE (py_sum (map (calc_tp_costs_in_period m) (TPS_IN_PERIOD m p))) (\<lambda>tp.
     bindE (bring_annual_costs_to_base_year m p) (\<lambda>b.
     Inr ((a + tp) * b))))"

definition SystemCostPerPeriod :: "model \<Rightarrow> period \<Rightarrow> real result" where
  "SystemCostPerPeriod m p =
     (if p \<in> set (PERIODS m) then calc_sys_costs_per_period m p else Inl KeyError)"

definition SystemCost :: "model \<Rightarrow> real result" where
  "SystemCost m = py_sum (map (SystemCostPerPeriod m) (PERIODS m))"

datatype sense = minimize | maximize

record objective =
  expr :: real
  sense :: sense

definition Minimize_System_Cost :: "model \<Rightarrow> objective result" where
  "Minimize_System_Cost m =
     bindE (SystemCost m) (\<lambda>c. Inr \<lparr>expr = c, sense = minimize\<rparr>)"

definition financials_define_dynamic_components :: "model \<Rightarrow> model" where
  "financials_define_dynamic_components mdl =
     mdl\<lparr>declared := declared mdl @ [''SystemCostPerPeriod'', ''SystemCost'', ''Minimize_System_Cost'']\<rparr>"

text \<open>The \<open>EnergyCostReal_per_MWh\<close> entry of a row of \<open>electricity_cost.csv\<close> in
  \<open>post_solve\<close>: two divisions from the left, the second by the summed zone demand.\<close>

definition SystemDemand_MWh :: "model \<Rightarrow> period \<Rightarrow> real result" where
  "SystemDemand_MWh m p =
     py_sum (map (\<lambda>z. zone_total_demand_in_period_mwh m z p) (LOAD_ZONES m))"

definition EnergyCostReal_per_MWh :: "model \<Rightarrow> period \<Rightarrow> real result" where
  "EnergyCostReal_per_MWh m p =
     bindE (SystemCostPerPeriod m p) (\<lambda>s.
     bindE (bring_annual_costs_to_base_year m p) (\<lambda>b.
     bindE (py_div s b) (\<lambda>q.
     bindE (SystemDemand_MWh m p) (\<lambda>d.
     py_div q d))))"

section \<open>The cost aggregation in the words of the specification\<close>

text \<open>
  The sums of the specification, over the entries \<open>tpc\<close> of the per-timepoint cost registry
  and \<open>pc\<close> of the per-period cost registry, to be compared with the expressions that
  \<open>define_dynamic_components\<close> builds.
\<close>

definition spec_tp_costs :: "model \<Rightarrow> string list \<Rightarrow> period \<Rightarrow> real" where
  "spec_tp_costs m tpc p =
     (\<Sum>t\<leftarrow>TPS_IN_PERIOD m p. \<Sum>c\<leftarrow>tpc. projr (component_at m c (IdxT t)) * tp_weight_in_year m t)"

definition spec_annual_costs :: "model \<Rightarrow> string list \<Rightarrow> period \<Rightarrow> real" where
  "spec_annual_costs m pc p = (\<Sum>c\<leftarrow>pc. projr (component_at m c (IdxP p)))"

definition spec_SystemCostPerPeriod :: "model \<Rightarrow> string list \<Rightarrow> string list \<Rightarrow> period \<Rightarrow> real" where
  "spec_SystemCostPerPeriod m tpc pc p =
     (spec_annual_costs m pc p + spec_tp_costs m tpc p)
       * projr (bring_annual_costs_to_base_year m p)"

section \<open>Registration into the dynamic lists\<close>

datatype registry =
    ZonePowerInjections
  | ZonePowerWithdrawals
  | DistributedPowerWithdrawals
  | CostComponentsPerTP
  | CostComponentsPerPeriod

fun registry_get :: "registry \<Rightarrow> model \<Rightarrow> string list option" where
  "registry_get ZonePowerInjections mdl = Zone_Power_Injections mdl"
| "registry_get ZonePowerWithdrawals mdl = Zone_Power_Withdrawals mdl"
| "registry_get DistributedPowerWithdrawals mdl = Distributed_Power_Withdrawals mdl"
| "registry_get CostComponentsPerTP mdl = Cost_Components_Per_TP mdl"
| "registry_get CostComponentsPerPeriod mdl = Cost_Components_Per_Period mdl"

fun registry_set :: "registry \<Rightarrow> string list \<Rightarrow> model \<Rightarrow> model" where
  "registry_set ZonePowerInjections l mdl = mdl\<lparr>Zone_Power_Injections := Some l\<rparr>"
| "registry_set ZonePowerWithdrawals l mdl = mdl\<lparr>Zone_Power_Withdrawals := Some l\<rparr>"
| "registry_set DistributedPowerWithdrawals l mdl = mdl\<lparr>Distributed_Power_Withdrawals := Some l\<rparr>"
| "registry_set CostComponentsPerTP l mdl = mdl\<lparr>Cost_Components_Per_TP := Some l\<rparr>"
| "registry_set CostComponentsPerPeriod l mdl = mdl\<lparr>Cost_Components_Per_Period := Some l\<rparr>"

text \<open>\<open>mod.<list>.append(name)\<close>, the way a module registers a component.\<close>

definition registry_append :: "registry \<Rightarrow> string \<Rightarrow> model \<Rightarrow> model result" where
  "registry_append reg name mdl =
     (case registry_get reg mdl of
        None \<Rightarrow> Inl AttributeError
      | Some l \<Rightarrow> Inr (registry_set reg (l @ [name]) mdl))"

section \<open>A one-zone, one-period, one-timepoint instance\<close>

definition example_model :: model where
  "example_model =
     \<lparr>PERIODS = [''P1''],
      TIMEPOINTS = [''T1''],
      TPS_IN_PERIOD = (\<lambda>p. if p = ''P1'' then [''T1''] else []),
      tp_weight = (\<lambda>t. 8760),
      tp_weight_in_year = (\<lambda>t. 8760),
      tp_period = (\<lambda>t. ''P1''),
      period_length_years = (\<lambda>p. 1),
      LOAD_ZONES = [''Z1''],
      zone_demand_mw = (\<lambda>zt. if zt = (''Z1'', ''T1'') then Some 100 else None),
      base_financial_year = Some 2020,
      dollar_year = Some 2020,
      discount_rate = Some 0,
      Zone_Power_Injections = Some [''ZoneTotalGen''],
      Zone_Power_Withdrawals = Some [''zone_demand_mw''],
      Distributed_Power_Withdrawals = None,
      Cost_Components_Per_TP = Some [''FuelCostsPerTP''],
      Cost_Components_Per_Period = Some [''FixedCosts''],
      components = (\<lambda>name.
        if name = ''ZoneTotalGen'' then Some (\<lambda>i. if i = IdxZT ''Z1'' ''T1'' then Some 100 else None)
        else if name = ''zone_demand_mw'' then Some (\<lambda>i. if i = IdxZT ''Z1'' ''T1'' then Some 100 else None)
        else if name = ''FuelCostsPerTP'' then Some (\<lambda>i. if i = IdxT ''T1'' then Some 2 else None)
        else if name = ''FixedCosts'' then Some (\<lambda>i. if i = IdxP ''P1'' then Some 500 else None)
        else None),
      component_kind = (\<lambda>name.
        if name = ''zone_demand_mw'' then NumericParam else ModelExpression),
      declared = []\<rparr>"

text \<open>The same instance with a demand of zero everywhere.\<close>

definition zero_demand_model :: model where
  "zero_demand_model = example_model\<lparr>zone_demand_mw := (\<lambda>zt. Some 0)\<rparr>"

text \<open>The instance with no value loaded for \<open>dollar_year\<close>.\<close>

definition missing_dollar_year_model :: model where
  "missing_dollar_year_model = example_model\<lparr>dollar_year := None\<rparr>"

text \<open>The instance as the build leaves it once every module has defined its dynamic
  components: the two pairs of lists created, then the aggregation components attached.\<close>

definition aggregated_model :: model where
  "aggregated_model =
     financials_define_dynamic_components
       (load_zones_define_dynamic_components
         (financials_define_dynamic_lists
           (load_zones_define_dynamic_lists example_model)))"

section \<open>Facts about the arithmetic\<close>

lemma bindE_Inr [simp]: "bindE (Inr v) f = f v"
  by (simp add: bindE_def)

lemma bindE_Inl [simp]: "bindE (Inl e) f = Inl e"
  by (simp add: bindE_def)

lemma bindE_eq_Inr:
  "bindE r f = Inr y \<longleftrightarrow> (\<exists>v. r = Inr v \<and> f v = Inr y)"
  by (cases r) simp_all

lemma py_pow_pos:
  assumes "0 < b"
  shows "py_pow b e = Inr (b powr e)"
proof (cases "e = of_int \<lfloor>e\<rfloor>")
  case True
  have "b powr of_int \<lfloor>e\<rfloor> = b powi \<lfloor>e\<rfloor>"
    using assms by (simp add: powr_real_of_int' power_int_def inverse_eq_divide)
  with True assms show ?thesis
    by (simp add: py_pow_def)
next
  case False
  with assms show ?thesis
    by (simp add: py_pow_def)
qed

lemma py_sum_from_defined:
  "\<forall>x\<in>set xs. f x = Inr (g x) \<Longrightarrow>
     py_sum_from acc (map f xs) = Inr (acc + sum_list (map g xs))"
  by (induction xs arbitrary: acc) (simp_all add: add.assoc)

lemma py_sum_defined:
  "\<forall>x\<in>set xs. f x = Inr (g x) \<Longrightarrow> py_sum (map f xs) = Inr (sum_list (map g xs))"
  using py_sum_from_defined [of xs f g 0] by (simp add: py_sum_def)

lemma py_sum_projr:
  assumes "\<forall>x\<in>set xs. \<exists>v. f x = Inr v"
  shows "py_sum (map f xs) = Inr (sum_list (map (\<lambda>x. projr (f x)) xs))"
proof -
  have "\<forall>x\<in>set xs. f x = Inr (projr (f x))"
    using assms by force
  then show ?thesis by (rule py_sum_defined)
qed

lemma py_sum_from_Inr_elems:
  "py_sum_from acc (map f xs) = Inr s \<Longrightarrow> \<forall>x\<in>set xs. \<exists>v. f x = Inr v"
  by (induction xs arbitrary: acc) (auto split: sum.splits)

lemma py_sum_Inr_value:
  assumes "py_sum (map f xs) = Inr s"
  shows "(\<forall>x\<in>set xs. \<exists>v. f x = Inr v) \<and> s = sum_list (map (\<lambda>x. projr (f x)) xs)"
proof -
  have el: "\<forall>x\<in>set xs. \<exists>v. f x = Inr v"
    using assms py_sum_from_Inr_elems by (simp add: py_sum_def) blast
  then have "py_sum (map f xs) = Inr (sum_list (map (\<lambda>x. projr (f x)) xs))"
    by (rule py_sum_projr)
  with assms el show ?thesis by simp
qed

section \<open>The power balance\<close>

text \<open>With parameters only on both sides (or nothing registered) no constraint is emitted.\<close>

lemma Zone_Energy_Balance_plain_numbers:
  assumes "Zone_Power_Injections m = Some injs" and "Zone_Power_Withdrawals m = Some wds"
    and "plain_number_sum m injs" and "plain_number_sum m wds"
  shows "isl (Zone_Energy_Balance m z t)"
  using assms
  by (cases "py_sum (map (\<lambda>c. component_at m c (IdxZT z t)) injs)";
      cases "py_sum (map (\<lambda>c. component_at m c (IdxZT z t)) wds)")
     (simp_all add: Zone_Energy_Balance_def attr_def)

lemma Zone_Energy_Balance_emitted:
  assumes e: "Zone_Energy_Balance m z t = Inr c"
  shows "\<exists>injs wds. Zone_Power_Injections m = Some injs \<and> Zone_Power_Withdrawals m = Some wds
         \<and> c = Equality (\<Sum>c\<leftarrow>injs. projr (component_at m c (IdxZT z t)))
                         (\<Sum>c\<leftarrow>wds. projr (component_at m c (IdxZT z t)))"
proof -
  have idx: "(z, t) \<in> set (ZONE_TIMEPOINTS m)"
    using e by (cases "(z, t) \<in> set (ZONE_TIMEPOINTS m)") (simp_all add: Zone_Energy_Balance_def)
  obtain il where i: "Zone_Power_Injections m = Some il"
    using e idx by (cases "Zone_Power_Injections m") (simp_all add: Zone_Energy_Balance_def attr_def)
  obtain lhs where l: "py_sum (map (\<lambda>c. component_at m c (IdxZT z t)) il) = Inr lhs"
    using e idx i
    by (cases "py_sum (map (\<lambda>c. component_at m c (IdxZT z t)) il)")
       (simp_all add: Zone_Energy_Balance_def attr_def)
  obtain wl where w: "Zone_Power_Withdrawals m = Some wl"
    using e idx i l
    by (cases "Zone_Power_Withdrawals m") (simp_all add: Zone_Energy_Balance_def attr_def)
  obtain rhs where r: "py_sum (map (\<lambda>c. component_at m c (IdxZT z t)) wl) = Inr rhs"
    using e idx i l w
    by (cases "py_sum (map (\<lambda>c. component_at m c (IdxZT z t)) wl)")
       (simp_all add: Zone_Energy_Balance_def attr_def)
  have c: "c = Equality lhs rhs"
    using e idx i l w r
    by (simp add: Zone_Energy_Balance_def attr_def split: if_splits)
  have "lhs = (\<Sum>c\<leftarrow>il. projr (component_at m c (IdxZT z t)))"
    using py_sum_Inr_value [OF l] by simp
  moreover have "rhs = (\<Sum>c\<leftarrow>wl. projr (component_at m c (IdxZT z t)))"
    using py_sum_Inr_value [OF r] by simp
  ultimately show ?thesis
    using i w c by simp
qed

text \<open>
  C1. For every zone \<open>z\<close> and timepoint \<open>t\<close>, whenever the constraint
  \<open>Zone_Energy_Balance[z, t]\<close> is emitted it is the equality between the sum, over every
  name in the injection registry, of that component at \<open>(z, t)\<close> and the sum, over every
  name in the withdrawal registry, of that component at \<open>(z, t)\<close>. It is emitted for every
  zone and timepoint of the model with both registries present, every registered component
  defined at \<open>(z, t)\<close> and a variable or an expression among them.
\<close>

theorem Zone_Energy_Balance_is_equality_of_sums:
  "(Zone_Energy_Balance m z t = Inr c \<longrightarrow>
      (\<exists>injs wds. Zone_Power_Injections m = Some injs \<and> Zone_Power_Withdrawals m = Some wds
         \<and> c = Equality (\<Sum>c\<leftarrow>injs. projr (component_at m c (IdxZT z t)))
                         (\<Sum>c\<leftarrow>wds. projr (component_at m c (IdxZT z t)))))
   \<and> (z \<in> set (LOAD_ZONES m) \<and> t \<in> set (TIMEPOINTS m)
       \<and> Zone_Power_Injections m = Some injs \<and> Zone_Power_Withdrawals m = Some wds
       \<and> (\<forall>c\<in>set injs \<union> set wds. \<exists>v. component_at m c (IdxZT z t) = Inr v)
       \<and> \<not> (plain_number_sum m injs \<and> plain_number_sum m wds)
      \<longrightarrow> Zone_Energy_Balance m z t =
            Inr (Equality (\<Sum>c\<leftarrow>injs. projr (component_at m c (IdxZT z t)))
                          (\<Sum>c\<leftarrow>wds. projr (component_at m c (IdxZT z t)))))"
proof (rule conjI)
  show "Zone_Energy_Balance m z t = Inr c \<longrightarrow>
      (\<exists>injs wds. Zone_Power_Injections m = Some injs \<and> Zone_Power_Withdrawals m = Some wds
         \<and> c = Equality (\<Sum>c\<leftarrow>injs. projr (component_at m c (IdxZT z t)))
                         (\<Sum>c\<leftarrow>wds. projr (component_at m c (IdxZT z t))))"
    using Zone_Energy_Balance_emitted by blast
next
  show "z \<in> set (LOAD_ZONES m) \<and> t \<in> set (TIMEPOINTS m)
       \<and> Zone_Power_Injections m = Some injs \<and> Zone_Power_Withdrawals m = Some wds
       \<and> (\<forall>c\<in>set injs \<union> set wds. \<exists>v. component_at m c (IdxZT z t) = Inr v)
       \<and> \<not> (plain_number_sum m injs \<and> plain_number_sum m wds)
      \<longrightarrow> Zone_Energy_Balance m z t =
            Inr (Equality (\<Sum>c\<leftarrow>injs. projr (component_at m c (IdxZT z t)))
                          (\<Sum>c\<leftarrow>wds. projr (component_at m c (IdxZT z t))))"
  proof (rule impI)
    assume a: "z \<in> set (LOAD_ZONES m) \<and> t \<in> set (TIMEPOINTS m)
       \<and> Zone_Power_Injections m = Some injs \<and> Zone_Power_Withdrawals m = Some wds
       \<and> (\<forall>c\<in>set injs \<union> set wds. \<exists>v. component_at m c (IdxZT z t) = Inr v)
       \<and> \<not> (plain_number_sum m injs \<and> plain_number_sum m wds)"
    have i: "py_sum (map (\<lambda>c. component_at m c (IdxZT z t)) injs)
               = Inr (\<Sum>c\<leftarrow>injs. projr (component_at m c (IdxZT z t)))"
      using a by (intro py_sum_projr) auto
    have w: "py_sum (map (\<lambda>c. component_at m c (IdxZT z t)) wds)
               = Inr (\<Sum>c\<leftarrow>wds. projr (component_at m c (IdxZT z t)))"
      using a by (intro py_sum_projr) auto
    show "Zone_Energy_Balance m z t =
            Inr (Equality (\<Sum>c\<leftarrow>injs. projr (component_at m c (IdxZT z t)))
                          (\<Sum>c\<leftarrow>wds. projr (component_at m c (IdxZT z t))))"
      using a by (simp add: Zone_Energy_Balance_def ZONE_TIMEPOINTS_def attr_def i w)
  qed
qed

theorem Zone_Energy_Balance_is_equality_of_sums_witness:
  "''Z1'' \<in> set (LOAD_ZONES example_model) \<and> ''T1'' \<in> set (TIMEPOINTS example_model)
   \<and> Zone_Power_Injections example_model = Some [''ZoneTotalGen'']
   \<and> Zone_Power_Withdrawals example_model = Some [''zone_demand_mw'']
   \<and> component_at example_model ''ZoneTotalGen'' (IdxZT ''Z1'' ''T1'') = Inr 100
   \<and> component_at example_model ''zone_demand_mw'' (IdxZT ''Z1'' ''T1'') = Inr 100
   \<and> \<not> plain_number_sum example_model [''ZoneTotalGen'']
   \<and> Zone_Energy_Balance example_model ''Z1'' ''T1'' = Inr (Equality 100 100)"
proof -
  have h1: "''Z1'' \<in> set (LOAD_ZONES example_model)"
    and h2: "''T1'' \<in> set (TIMEPOINTS example_model)"
    and h3: "Zone_Power_Injections example_model = Some [''ZoneTotalGen'']"
    and h4: "Zone_Power_Withdrawals example_model = Some [''zone_demand_mw'']"
    and h5: "\<not> plain_number_sum example_model [''ZoneTotalGen'']"
    by (simp_all add: example_model_def plain_number_sum_def)
  have v1: "component_at example_model ''ZoneTotalGen'' (IdxZT ''Z1'' ''T1'') = Inr 100"
    and v2: "component_at example_model ''zone_demand_mw'' (IdxZT ''Z1'' ''T1'') = Inr 100"
    by (simp_all add: example_model_def component_at_def)
  have d: "\<forall>c\<in>set [''ZoneTotalGen''] \<union> set [''zone_demand_mw''].
             \<exists>v. component_at example_model c (IdxZT ''Z1'' ''T1'') = Inr v"
    using v1 v2 by simp
  have "Zone_Energy_Balance example_model ''Z1'' ''T1'' =
          Inr (Equality (\<Sum>c\<leftarrow>[''ZoneTotalGen'']. projr (component_at example_model c (IdxZT ''Z1'' ''T1'')))
                        (\<Sum>c\<leftarrow>[''zone_demand_mw'']. projr (component_at example_model c (IdxZT ''Z1'' ''T1''))))"
    using Zone_Energy_Balance_is_equality_of_sums [where m = example_model and z = "''Z1''" and t = "''T1''"
        and injs = "[''ZoneTotalGen'']" and wds = "[''zone_demand_mw'']"] h1 h2 h3 h4 h5 d
    by blast
  then have e: "Zone_Energy_Balance example_model ''Z1'' ''T1'' = Inr (Equality 100 100)"
    by (simp add: v1 v2)
  from h1 h2 h3 h4 h5 v1 v2 e show ?thesis by blast
qed

section \<open>The uniform series\<close>

lemma py_pow_integral:
  assumes "b \<noteq> 0"
  shows "py_pow b (of_int k) = Inr (b powi k)"
  using assms by (simp add: py_pow_def)

text \<open>
  C4. For every \<open>n\<close>, \<open>uniform_series_to_present_value(0, n)\<close> is \<open>n\<close>: the zero rate is
  handled by the explicit branch, which performs no division. For every rate \<open>r\<close> other
  than 0 and every \<open>n\<close>, \<open>uniform_series_to_present_value(r, n)\<close> is
  \<open>(1 - (1+r)^(-n)) / r * (1+r)\<close>: with the real power when \<open>1 + r\<close> is positive (every
  admissible discount rate), with the integral power when \<open>n\<close> is integral and \<open>1 + r\<close>
  is not zero, and in general with the value of Python's power, the division by \<open>r\<close>
  never raising.
\<close>

theorem uniform_series_to_present_value_formula:
  "uniform_series_to_present_value 0 n = Inr n
   \<and> (r \<noteq> 0 \<and> 0 < 1 + r \<longrightarrow>
        uniform_series_to_present_value r n = Inr ((1 - (1 + r) powr (- n)) / r * (1 + r)))
   \<and> (r \<noteq> 0 \<and> 1 + r \<noteq> 0 \<longrightarrow>
        uniform_series_to_present_value r (of_int k) = Inr ((1 - (1 + r) powi (- k)) / r * (1 + r)))
   \<and> (r \<noteq> 0 \<longrightarrow>
        uniform_series_to_present_value r n =
          bindE (py_pow (1 + r) (- n)) (\<lambda>pw. Inr ((1 - pw) / r * (1 + r))))"
proof (intro conjI impI)
  show "uniform_series_to_present_value 0 n = Inr n"
    by (simp add: uniform_series_to_present_value_def)
next
  assume "r \<noteq> 0 \<and> 0 < 1 + r"
  then show "uniform_series_to_present_value r n = Inr ((1 - (1 + r) powr (- n)) / r * (1 + r))"
    by (simp add: uniform_series_to_present_value_def py_pow_pos py_div_def)
next
  assume a: "r \<noteq> 0 \<and> 1 + r \<noteq> 0"
  then have "py_pow (1 + r) (- of_int k) = Inr ((1 + r) powi (- k))"
    using py_pow_integral [of "1 + r" "- k"] by simp
  with a show "uniform_series_to_present_value r (of_int k)
                 = Inr ((1 - (1 + r) powi (- k)) / r * (1 + r))"
    by (simp add: uniform_series_to_present_value_def py_div_def)
next
  assume "r \<noteq> 0"
  then show "uniform_series_to_present_value r n =
          bindE (py_pow (1 + r) (- n)) (\<lambda>pw. Inr ((1 - pw) / r * (1 + r)))"
    by (cases "py_pow (1 + r) (- n)")
       (simp_all add: uniform_series_to_present_value_def py_div_def)
qed

theorem uniform_series_to_present_value_formula_witness:
  "uniform_series_to_present_value 0 2 = Inr 2
   \<and> (1::real) \<noteq> 0 \<and> (0::real) < 1 + 1
   \<and> uniform_series_to_present_value 1 2 = Inr (3 / 2)
   \<and> (- 3::real) \<noteq> 0 \<and> 1 + (- 3::real) \<noteq> 0
   \<and> uniform_series_to_present_value (- 3) 2 = Inr (1 / 2)"
proof -
  have a: "uniform_series_to_present_value 1 2 = Inr (3 / 2)"
    using uniform_series_to_present_value_formula [where r = 1 and n = 2 and k = 2] by (simp add: powr_minus_divide)
  have b: "uniform_series_to_present_value (- 3) 2 = Inr (1 / 2)"
    using uniform_series_to_present_value_formula [where r = "- 3" and k = 2 and n = 2] by (simp add: power_int_minus power2_eq_square)
  show ?thesis
    using a b uniform_series_to_present_value_formula [where n = 2 and r = 1 and k = 2] by simp
qed

section \<open>The inverse pair of time-value functions\<close>









lemma uniform_series_nonneg:
  assumes "0 \<le> dr" and "0 \<le> n"
  shows "\<exists>u. uniform_series_to_present_value dr n = Inr u \<and> 0 \<le> u"
proof (cases "dr = 0")
  case True
  with assms show ?thesis by (simp add: uniform_series_to_present_value_def)
next
  case False
  with assms have pos: "0 < dr" by simp
  have "(1 + dr) powr (- n) \<le> (1 + dr) powr 0"
    using assms by (intro powr_mono) simp_all
  then have "0 \<le> 1 - (1 + dr) powr (- n)" using pos by simp
  then have "0 \<le> (1 - (1 + dr) powr (- n)) / dr * (1 + dr)"
    using pos by simp
  with False pos show ?thesis
    by (simp add: uniform_series_to_present_value_def py_pow_pos py_div_def)
qed

lemma future_to_present_value_pos:
  assumes "0 \<le> dr"
  shows "\<exists>f. future_to_present_value dr t = Inr f \<and> 0 < f"
  using assms by (simp add: future_to_present_value_def py_pow_pos)

lemma bring_annual_defined:
  assumes "p \<in> set (PERIODS m)"
    and "discount_rate m = Some dr" and "0 \<le> dr"
    and "dollar_year m = Some dy" and "base_financial_year m = Some bfy"
    and "0 \<le> period_length_years m p"
  shows "\<exists>u f. uniform_series_to_present_value dr (period_length_years m p) = Inr u
             \<and> future_to_present_value dr (dy - bfy) = Inr f
             \<and> 0 \<le> u * f
             \<and> bring_annual_costs_to_base_year m p = Inr (u * f)"
proof -
  obtain u where u: "uniform_series_to_present_value dr (period_length_years m p) = Inr u" "0 \<le> u"
    using uniform_series_nonneg [OF assms(3) assms(6)] by blast
  obtain f where f: "future_to_present_value dr (dy - bfy) = Inr f" "0 < f"
    using future_to_present_value_pos [OF assms(3)] by blast
  have nn: "0 \<le> u * f" using u(2) f(2) by simp
  then have "bring_annual_costs_to_base_year m p = Inr (u * f)"
    using assms(1,2,4,5) u(1) f(1)
    by (simp add: bring_annual_costs_to_base_year_def param_value_def within_NonNegativeReals_def)
  with u f nn show ?thesis by blast
qed

section \<open>The discount factors\<close>

text \<open>
  C3. With the three financial parameters loaded and the discount rate in its domain, for
  every period \<open>p\<close> (of non-negative length) \<open>bring_annual_costs_to_base_year[p]\<close> is
  \<open>uniform_series_to_present_value(discount_rate, period_length_years[p])\<close> times
  \<open>future_to_present_value(discount_rate, dollar_year - base_financial_year)\<close>, and for
  every timepoint \<open>t\<close> (of non-negative weight) \<open>bring_timepoint_costs_to_base_year[t]\<close> is
  \<open>bring_annual_costs_to_base_year[tp_period[t]]\<close> times \<open>tp_weight_in_year[t]\<close>.
\<close>

theorem bring_costs_to_base_year_factors:
  assumes "discount_rate m = Some dr" and "0 \<le> dr"
    and "dollar_year m = Some dy" and "base_financial_year m = Some bfy"
  shows "(p \<in> set (PERIODS m) \<and> 0 \<le> period_length_years m p \<longrightarrow>
          (\<exists>u f. uniform_series_to_present_value dr (period_length_years m p) = Inr u
             \<and> future_to_present_value dr (dy - bfy) = Inr f
             \<and> bring_annual_costs_to_base_year m p = Inr (u * f)))
       \<and> (t \<in> set (TIMEPOINTS m) \<and> tp_period m t \<in> set (PERIODS m)
            \<and> 0 \<le> period_length_years m (tp_period m t) \<and> 0 \<le> tp_weight_in_year m t \<longrightarrow>
          (\<exists>b. bring_annual_costs_to_base_year m (tp_period m t) = Inr b
             \<and> bring_timepoint_costs_to_base_year m t = Inr (b * tp_weight_in_year m t)))"
proof (intro conjI impI)
  assume "p \<in> set (PERIODS m) \<and> 0 \<le> period_length_years m p"
  then show "\<exists>u f. uniform_series_to_present_value dr (period_length_years m p) = Inr u
             \<and> future_to_present_value dr (dy - bfy) = Inr f
             \<and> bring_annual_costs_to_base_year m p = Inr (u * f)"
    using bring_annual_defined [of p m dr dy bfy] assms by blast
next
  assume a: "t \<in> set (TIMEPOINTS m) \<and> tp_period m t \<in> set (PERIODS m)
            \<and> 0 \<le> period_length_years m (tp_period m t) \<and> 0 \<le> tp_weight_in_year m t"
  then obtain u f where b: "0 \<le> u * f"
      "bring_annual_costs_to_base_year m (tp_period m t) = Inr (u * f)"
    using bring_annual_defined [of "tp_period m t" m dr dy bfy] assms by blast
  have "0 \<le> u * f * tp_weight_in_year m t" using a b(1) by simp
  then have "bring_timepoint_costs_to_base_year m t = Inr (u * f * tp_weight_in_year m t)"
    using a b(2)
    by (simp add: bring_timepoint_costs_to_base_year_def within_NonNegativeReals_def)
  with b(2) show "\<exists>b. bring_annual_costs_to_base_year m (tp_period m t) = Inr b
             \<and> bring_timepoint_costs_to_base_year m t = Inr (b * tp_weight_in_year m t)"
    by blast
qed

lemma example_model_simps:
  "PERIODS example_model = [''P1'']" "TIMEPOINTS example_model = [''T1'']"
  "LOAD_ZONES example_model = [''Z1'']"
  "TPS_IN_PERIOD example_model ''P1'' = [''T1'']"
  "tp_weight example_model t = 8760" "tp_weight_in_year example_model t = 8760"
  "tp_period example_model t = ''P1''" "period_length_years example_model p = 1"
  "zone_demand_mw example_model (''Z1'', ''T1'') = Some 100"
  "base_financial_year example_model = Some 2020" "dollar_year example_model = Some 2020"
  "discount_rate example_model = Some 0"
  by (simp_all add: example_model_def)

theorem bring_costs_to_base_year_factors_witness:
  "discount_rate example_model = Some 0 \<and> (0::real) \<le> 0
   \<and> dollar_year example_model = Some 2020 \<and> base_financial_year example_model = Some 2020
   \<and> ''P1'' \<in> set (PERIODS example_model) \<and> 0 \<le> period_length_years example_model ''P1''
   \<and> uniform_series_to_present_value 0 (period_length_years example_model ''P1'') = Inr 1
   \<and> future_to_present_value 0 (2020 - 2020) = Inr 1
   \<and> bring_annual_costs_to_base_year example_model ''P1'' = Inr 1
   \<and> ''T1'' \<in> set (TIMEPOINTS example_model)
   \<and> tp_period example_model ''T1'' \<in> set (PERIODS example_model)
   \<and> 0 \<le> tp_weight_in_year example_model ''T1''
   \<and> bring_timepoint_costs_to_base_year example_model ''T1'' = Inr 8760"
proof -
  have u: "uniform_series_to_present_value 0 1 = Inr 1"
    by (simp add: uniform_series_to_present_value_def)
  have f: "future_to_present_value 0 0 = Inr 1"
    by (simp add: future_to_present_value_def py_pow_def)
  show ?thesis
    using bring_costs_to_base_year_factors [of example_model 0 2020 2020 "''P1''" "''T1''"]
    by (auto simp add: example_model_simps u f)
qed

section \<open>The demand of a zone in a period\<close>

text \<open>
  C9. For every zone \<open>z\<close> and period \<open>p\<close> of the model, with the demand loaded (and
  non-negative) at every timepoint of the period and non-negative weights,
  \<open>zone_total_demand_in_period_mwh[z, p]\<close> is the sum over the timepoints \<open>t\<close> of
  \<open>TPS_IN_PERIOD[p]\<close> of \<open>zone_demand_mw[z, t] * tp_weight[t]\<close>. On the instance with one
  zone, one period of one year, one timepoint of weight 8760, both years 2020, rate 0 and a
  demand of 100, the total is 876000 and \<open>bring_timepoint_costs_to_base_year[T1]\<close> is 8760.
\<close>

theorem zone_total_demand_in_period_mwh_sum:
  "(z \<in> set (LOAD_ZONES m) \<and> p \<in> set (PERIODS m)
      \<and> (\<forall>t\<in>set (TPS_IN_PERIOD m p). \<exists>d. zone_demand_mw m (z, t) = Some d \<and> 0 \<le> d)
      \<and> (\<forall>t\<in>set (TPS_IN_PERIOD m p). 0 \<le> tp_weight m t)
    \<longrightarrow> zone_total_demand_in_period_mwh m z p =
          Inr (\<Sum>t\<leftarrow>TPS_IN_PERIOD m p. the (zone_demand_mw m (z, t)) * tp_weight m t))
   \<and> zone_total_demand_in_period_mwh example_model ''Z1'' ''P1'' = Inr 876000
   \<and> bring_timepoint_costs_to_base_year example_model ''T1'' = Inr 8760"
proof (intro conjI impI)
  assume a: "z \<in> set (LOAD_ZONES m) \<and> p \<in> set (PERIODS m)
      \<and> (\<forall>t\<in>set (TPS_IN_PERIOD m p). \<exists>d. zone_demand_mw m (z, t) = Some d \<and> 0 \<le> d)
      \<and> (\<forall>t\<in>set (TPS_IN_PERIOD m p). 0 \<le> tp_weight m t)"
  let ?g = "\<lambda>t. the (zone_demand_mw m (z, t)) * tp_weight m t"
  have "\<forall>t\<in>set (TPS_IN_PERIOD m p).
          bindE (zone_demand_at m z t) (\<lambda>d. Inr (d * tp_weight m t)) = Inr (?g t)"
    using a by (auto simp add: zone_demand_at_def param_value_def)
  then have s: "py_sum (map (\<lambda>t. bindE (zone_demand_at m z t) (\<lambda>d. Inr (d * tp_weight m t)))
                  (TPS_IN_PERIOD m p)) = Inr (sum_list (map ?g (TPS_IN_PERIOD m p)))"
    by (rule py_sum_defined)
  have "\<forall>t\<in>set (TPS_IN_PERIOD m p). 0 \<le> ?g t"
    using a by auto
  then have "0 \<le> sum_list (map ?g (TPS_IN_PERIOD m p))"
    by (intro sum_list_nonneg) auto
  then show "zone_total_demand_in_period_mwh m z p = Inr (sum_list (map ?g (TPS_IN_PERIOD m p)))"
    using a s by (simp add: zone_total_demand_in_period_mwh_def within_NonNegativeReals_def)
next
  show "zone_total_demand_in_period_mwh example_model ''Z1'' ''P1'' = Inr 876000"
    by (simp add: zone_total_demand_in_period_mwh_def example_model_simps py_sum_def
        zone_demand_at_def param_value_def within_NonNegativeReals_def)
next
  show "bring_timepoint_costs_to_base_year example_model ''T1'' = Inr 8760"
    by (simp add: bring_timepoint_costs_to_base_year_def bring_annual_costs_to_base_year_def
        example_model_simps uniform_series_to_present_value_def future_to_present_value_def
        py_pow_def param_value_def within_NonNegativeReals_def)
qed

theorem zone_total_demand_in_period_mwh_sum_witness:
  "''Z1'' \<in> set (LOAD_ZONES example_model) \<and> ''P1'' \<in> set (PERIODS example_model)
   \<and> TPS_IN_PERIOD example_model ''P1'' = [''T1'']
   \<and> zone_demand_mw example_model (''Z1'', ''T1'') = Some 100 \<and> (0::real) \<le> 100
   \<and> 0 \<le> tp_weight example_model ''T1''
   \<and> zone_total_demand_in_period_mwh example_model ''Z1'' ''P1''
       = Inr (100 * tp_weight example_model ''T1'')"
  using zone_total_demand_in_period_mwh_sum [of "''Z1''" example_model "''P1''"]
  by (simp add: example_model_simps)

section \<open>The system cost and the objective\<close>

lemma calc_annual_costs_defined:
  assumes "Cost_Components_Per_Period m = Some pc"
    and "\<forall>c\<in>set pc. \<exists>v. component_at m c (IdxP p) = Inr v"
  shows "calc_annual_costs_in_period m p = Inr (spec_annual_costs m pc p)"
  using assms(1) py_sum_projr [OF assms(2)]
  by (simp add: calc_annual_costs_in_period_def attr_def spec_annual_costs_def)

lemma calc_tp_costs_defined:
  assumes "Cost_Components_Per_TP m = Some tpc"
    and "\<forall>c\<in>set tpc. \<exists>v. component_at m c (IdxT t) = Inr v"
  shows "calc_tp_costs_in_period m t =
           Inr (\<Sum>c\<leftarrow>tpc. projr (component_at m c (IdxT t)) * tp_weight_in_year m t)"
proof -
  have "\<forall>c\<in>set tpc. bindE (component_at m c (IdxT t)) (\<lambda>v. Inr (v * tp_weight_in_year m t))
           = Inr (projr (component_at m c (IdxT t)) * tp_weight_in_year m t)"
    using assms(2) by force
  then have "py_sum (map (\<lambda>c. bindE (component_at m c (IdxT t))
                                 (\<lambda>v. Inr (v * tp_weight_in_year m t))) tpc)
           = Inr (\<Sum>c\<leftarrow>tpc. projr (component_at m c (IdxT t)) * tp_weight_in_year m t)"
    by (rule py_sum_defined)
  with assms(1) show ?thesis
    by (simp add: calc_tp_costs_in_period_def attr_def)
qed

lemma SystemCostPerPeriod_defined:
  assumes "Cost_Components_Per_TP m = Some tpc" and "Cost_Components_Per_Period m = Some pc"
    and "p \<in> set (PERIODS m)"
    and "\<forall>c\<in>set pc. \<exists>v. component_at m c (IdxP p) = Inr v"
    and "\<forall>t\<in>set (TPS_IN_PERIOD m p). \<forall>c\<in>set tpc. \<exists>v. component_at m c (IdxT t) = Inr v"
    and "\<exists>b. bring_annual_costs_to_base_year m p = Inr b"
  shows "SystemCostPerPeriod m p = Inr (spec_SystemCostPerPeriod m tpc pc p)"
proof -
  have a: "calc_annual_costs_in_period m p = Inr (spec_annual_costs m pc p)"
    using assms(2,4) by (rule calc_annual_costs_defined)
  have "\<forall>t\<in>set (TPS_IN_PERIOD m p). calc_tp_costs_in_period m t =
           Inr (\<Sum>c\<leftarrow>tpc. projr (component_at m c (IdxT t)) * tp_weight_in_year m t)"
    using assms(1,5) by (auto intro: calc_tp_costs_defined)
  then have t: "py_sum (map (calc_tp_costs_in_period m) (TPS_IN_PERIOD m p))
                  = Inr (spec_tp_costs m tpc p)"
    unfolding spec_tp_costs_def by (rule py_sum_defined)
  obtain b where b: "bring_annual_costs_to_base_year m p = Inr b"
    using assms(6) by blast
  show ?thesis
    using assms(3) a t b
    by (simp add: SystemCostPerPeriod_def calc_sys_costs_per_period_def
        spec_SystemCostPerPeriod_def)
qed

text \<open>
  C2. With both cost registries present, every registered component defined where it is
  read and the discount factor of every period defined: for every period \<open>p\<close>,
  \<open>SystemCostPerPeriod[p]\<close> is \<open>(annual_costs(p) + tp_costs(p))\<close> times
  \<open>bring_annual_costs_to_base_year[p]\<close>, where \<open>tp_costs(p)\<close> sums \<open>c[t]\<close> times
  \<open>tp_weight_in_year[t]\<close> over the timepoints of the period and the per-timepoint
  registry and \<open>annual_costs(p)\<close> sums \<open>c[p]\<close> over the per-period registry;
  \<open>SystemCost\<close> is the sum of \<open>SystemCostPerPeriod[p]\<close> over all periods; and the
  objective minimizes \<open>SystemCost\<close>.
\<close>

theorem SystemCost_aggregation:
  assumes "Cost_Components_Per_TP m = Some tpc" and "Cost_Components_Per_Period m = Some pc"
    and "\<forall>p\<in>set (PERIODS m).
           (\<forall>c\<in>set pc. \<exists>v. component_at m c (IdxP p) = Inr v)
         \<and> (\<forall>t\<in>set (TPS_IN_PERIOD m p). \<forall>c\<in>set tpc. \<exists>v. component_at m c (IdxT t) = Inr v)
         \<and> (\<exists>b. bring_annual_costs_to_base_year m p = Inr b)"
  shows "(\<forall>p\<in>set (PERIODS m).
            SystemCostPerPeriod m p = Inr (spec_SystemCostPerPeriod m tpc pc p))
       \<and> SystemCost m = Inr (\<Sum>p\<leftarrow>PERIODS m. spec_SystemCostPerPeriod m tpc pc p)
       \<and> Minimize_System_Cost m =
           Inr \<lparr>expr = (\<Sum>p\<leftarrow>PERIODS m. spec_SystemCostPerPeriod m tpc pc p), sense = minimize\<rparr>"
proof -
  have per: "\<forall>p\<in>set (PERIODS m).
            SystemCostPerPeriod m p = Inr (spec_SystemCostPerPeriod m tpc pc p)"
    using assms by (auto intro!: SystemCostPerPeriod_defined)
  then have tot: "SystemCost m = Inr (\<Sum>p\<leftarrow>PERIODS m. spec_SystemCostPerPeriod m tpc pc p)"
    unfolding SystemCost_def by (rule py_sum_defined)
  then have "Minimize_System_Cost m =
           Inr \<lparr>expr = (\<Sum>p\<leftarrow>PERIODS m. spec_SystemCostPerPeriod m tpc pc p), sense = minimize\<rparr>"
    by (simp add: Minimize_System_Cost_def)
  with per tot show ?thesis by blast
qed

lemma example_model_bring_annual:
  "bring_annual_costs_to_base_year example_model ''P1'' = Inr 1"
  by (simp add: bring_annual_costs_to_base_year_def
        example_model_simps uniform_series_to_present_value_def future_to_present_value_def
        py_pow_def param_value_def within_NonNegativeReals_def)

lemma example_model_components:
  "Cost_Components_Per_TP example_model = Some [''FuelCostsPerTP'']"
  "Cost_Components_Per_Period example_model = Some [''FixedCosts'']"
  "component_at example_model ''FuelCostsPerTP'' (IdxT ''T1'') = Inr 2"
  "component_at example_model ''FixedCosts'' (IdxP ''P1'') = Inr 500"
  by (simp_all add: example_model_def component_at_def)

theorem SystemCost_aggregation_witness:
  "Cost_Components_Per_TP example_model = Some [''FuelCostsPerTP'']
   \<and> Cost_Components_Per_Period example_model = Some [''FixedCosts'']
   \<and> PERIODS example_model = [''P1'']
   \<and> TPS_IN_PERIOD example_model ''P1'' = [''T1'']
   \<and> component_at example_model ''FixedCosts'' (IdxP ''P1'') = Inr 500
   \<and> component_at example_model ''FuelCostsPerTP'' (IdxT ''T1'') = Inr 2
   \<and> bring_annual_costs_to_base_year example_model ''P1'' = Inr 1
   \<and> SystemCostPerPeriod example_model ''P1'' = Inr 18020
   \<and> SystemCost example_model = Inr 18020
   \<and> Minimize_System_Cost example_model = Inr \<lparr>expr = 18020, sense = minimize\<rparr>"
proof -
  have h: "\<forall>p\<in>set (PERIODS example_model).
           (\<forall>c\<in>set [''FixedCosts'']. \<exists>v. component_at example_model c (IdxP p) = Inr v)
         \<and> (\<forall>t\<in>set (TPS_IN_PERIOD example_model p). \<forall>c\<in>set [''FuelCostsPerTP''].
               \<exists>v. component_at example_model c (IdxT t) = Inr v)
         \<and> (\<exists>b. bring_annual_costs_to_base_year example_model p = Inr b)"
    by (simp add: example_model_simps example_model_components example_model_bring_annual)
  have v: "spec_SystemCostPerPeriod example_model [''FuelCostsPerTP''] [''FixedCosts''] ''P1'' = 18020"
    by (simp add: spec_SystemCostPerPeriod_def spec_annual_costs_def spec_tp_costs_def
        example_model_simps example_model_components example_model_bring_annual)
  show ?thesis
    using SystemCost_aggregation [OF example_model_components(1) example_model_components(2) h]
    by (simp add: example_model_simps example_model_components example_model_bring_annual v)
qed

section \<open>The exported cost per MWh\<close>

lemma zone_total_demand_nonneg:
  "zone_total_demand_in_period_mwh m z p = Inr x \<Longrightarrow> 0 \<le> x"
  by (auto simp add: zone_total_demand_in_period_mwh_def bindE_eq_Inr within_NonNegativeReals_def
      split: if_splits)

lemma zone_total_demand_zero:
  assumes "z \<in> set (LOAD_ZONES m)" and "p \<in> set (PERIODS m)"
    and "\<forall>t\<in>set (TPS_IN_PERIOD m p). zone_demand_mw m (z, t) = Some 0"
  shows "zone_total_demand_in_period_mwh m z p = Inr 0"
proof -
  have "\<forall>t\<in>set (TPS_IN_PERIOD m p).
          bindE (zone_demand_at m z t) (\<lambda>d. Inr (d * tp_weight m t)) = Inr 0"
    using assms(3) by (simp add: zone_demand_at_def param_value_def)
  then have "py_sum (map (\<lambda>t. bindE (zone_demand_at m z t) (\<lambda>d. Inr (d * tp_weight m t)))
                  (TPS_IN_PERIOD m p)) = Inr (sum_list (map (\<lambda>t. 0) (TPS_IN_PERIOD m p)))"
    by (rule py_sum_defined)
  then show ?thesis
    using assms(1,2)
    by (simp add: zone_total_demand_in_period_mwh_def within_NonNegativeReals_def)
qed

lemma SystemDemand_zero:
  assumes "p \<in> set (PERIODS m)"
    and "\<forall>z\<in>set (LOAD_ZONES m). \<forall>t\<in>set (TPS_IN_PERIOD m p). zone_demand_mw m (z, t) = Some 0"
  shows "SystemDemand_MWh m p = Inr 0"
proof -
  have "\<forall>z\<in>set (LOAD_ZONES m). zone_total_demand_in_period_mwh m z p = Inr 0"
    using assms by (auto intro: zone_total_demand_zero)
  then have "py_sum (map (\<lambda>z. zone_total_demand_in_period_mwh m z p) (LOAD_ZONES m))
               = Inr (sum_list (map (\<lambda>z. 0) (LOAD_ZONES m)))"
    by (rule py_sum_defined)
  then show ?thesis by (simp add: SystemDemand_MWh_def)
qed

lemma SystemDemand_positive:
  assumes "SystemDemand_MWh m p = Inr d" and "d \<noteq> 0"
  shows "(\<forall>z\<in>set (LOAD_ZONES m). \<exists>x. zone_total_demand_in_period_mwh m z p = Inr x)
       \<and> 0 < (\<Sum>z\<leftarrow>LOAD_ZONES m. projr (zone_total_demand_in_period_mwh m z p))"
proof -
  have v: "(\<forall>z\<in>set (LOAD_ZONES m). \<exists>x. zone_total_demand_in_period_mwh m z p = Inr x)
        \<and> d = (\<Sum>z\<leftarrow>LOAD_ZONES m. projr (zone_total_demand_in_period_mwh m z p))"
    using assms(1) unfolding SystemDemand_MWh_def by (rule py_sum_Inr_value)
  then have "\<forall>z\<in>set (LOAD_ZONES m). 0 \<le> projr (zone_total_demand_in_period_mwh m z p)"
    using zone_total_demand_nonneg by fastforce
  then have "0 \<le> (\<Sum>z\<leftarrow>LOAD_ZONES m. projr (zone_total_demand_in_period_mwh m z p))"
    by (intro sum_list_nonneg) auto
  with v assms(2) show ?thesis by simp
qed

text \<open>
  C10. \<open>EnergyCostReal_per_MWh\<close> divides by the summed zone demand of the period without a
  guard. Whenever it returns a value for a period \<open>p\<close>, every
  \<open>zone_total_demand_in_period_mwh[z, p]\<close> is defined and their sum over the zones is
  strictly positive; and when the demand is zero at every zone and timepoint of the period
  (which the non-negativity of \<open>zone_demand_mw\<close> permits), the computation raises
  \<open>ZeroDivisionError\<close>.
\<close>

theorem EnergyCostReal_per_MWh_division:
  "(EnergyCostReal_per_MWh m p = Inr v \<longrightarrow>
      (\<forall>z\<in>set (LOAD_ZONES m). \<exists>x. zone_total_demand_in_period_mwh m z p = Inr x)
      \<and> 0 < (\<Sum>z\<leftarrow>LOAD_ZONES m. projr (zone_total_demand_in_period_mwh m z p)))
   \<and> (p \<in> set (PERIODS m)
      \<and> (\<forall>z\<in>set (LOAD_ZONES m). \<forall>t\<in>set (TPS_IN_PERIOD m p). zone_demand_mw m (z, t) = Some 0)
      \<and> SystemCostPerPeriod m p = Inr s \<and> bring_annual_costs_to_base_year m p = Inr b
      \<longrightarrow> EnergyCostReal_per_MWh m p = Inl ZeroDivisionError)"
proof (rule conjI)
  show "EnergyCostReal_per_MWh m p = Inr v \<longrightarrow>
      (\<forall>z\<in>set (LOAD_ZONES m). \<exists>x. zone_total_demand_in_period_mwh m z p = Inr x)
      \<and> 0 < (\<Sum>z\<leftarrow>LOAD_ZONES m. projr (zone_total_demand_in_period_mwh m z p))"
  proof (rule impI)
    assume "EnergyCostReal_per_MWh m p = Inr v"
    then obtain q d where d: "SystemDemand_MWh m p = Inr d" and q: "py_div q d = Inr v"
      by (auto simp add: EnergyCostReal_per_MWh_def bindE_eq_Inr)
    from q have "d \<noteq> 0"
      by (auto simp add: py_div_def)
    with d show "(\<forall>z\<in>set (LOAD_ZONES m). \<exists>x. zone_total_demand_in_period_mwh m z p = Inr x)
        \<and> 0 < (\<Sum>z\<leftarrow>LOAD_ZONES m. projr (zone_total_demand_in_period_mwh m z p))"
      by (rule SystemDemand_positive)
  qed
next
  show "p \<in> set (PERIODS m)
      \<and> (\<forall>z\<in>set (LOAD_ZONES m). \<forall>t\<in>set (TPS_IN_PERIOD m p). zone_demand_mw m (z, t) = Some 0)
      \<and> SystemCostPerPeriod m p = Inr s \<and> bring_annual_costs_to_base_year m p = Inr b
      \<longrightarrow> EnergyCostReal_per_MWh m p = Inl ZeroDivisionError"
  proof (rule impI)
    assume a: "p \<in> set (PERIODS m)
        \<and> (\<forall>z\<in>set (LOAD_ZONES m). \<forall>t\<in>set (TPS_IN_PERIOD m p). zone_demand_mw m (z, t) = Some 0)
        \<and> SystemCostPerPeriod m p = Inr s \<and> bring_annual_costs_to_base_year m p = Inr b"
    then have "SystemDemand_MWh m p = Inr 0"
      by (intro SystemDemand_zero) auto
    with a show "EnergyCostReal_per_MWh m p = Inl ZeroDivisionError"
      by (simp add: EnergyCostReal_per_MWh_def py_div_def)
  qed
qed

lemma example_model_SystemCostPerPeriod:
  "SystemCostPerPeriod example_model ''P1'' = Inr 18020"
  by (simp add: SystemCostPerPeriod_def calc_sys_costs_per_period_def
      calc_annual_costs_in_period_def calc_tp_costs_in_period_def attr_def py_sum_def
      example_model_simps example_model_components example_model_bring_annual)

lemma example_model_SystemDemand:
  "SystemDemand_MWh example_model ''P1'' = Inr 876000"
  by (simp add: SystemDemand_MWh_def zone_total_demand_in_period_mwh_def example_model_simps
      py_sum_def zone_demand_at_def param_value_def within_NonNegativeReals_def)

lemma zero_demand_model_simps:
  "PERIODS zero_demand_model = [''P1'']"
  "LOAD_ZONES zero_demand_model = [''Z1'']"
  "TPS_IN_PERIOD zero_demand_model ''P1'' = [''T1'']"
  "zone_demand_mw zero_demand_model zt = Some 0"
  by (simp_all add: zero_demand_model_def example_model_def)

lemma zero_demand_model_tp_costs:
  "calc_tp_costs_in_period zero_demand_model = calc_tp_costs_in_period example_model"
  by (rule ext) (simp add: zero_demand_model_def calc_tp_costs_in_period_def component_at_def)

lemma zero_demand_model_costs:
  "SystemCostPerPeriod zero_demand_model p = SystemCostPerPeriod example_model p"
  "bring_annual_costs_to_base_year zero_demand_model p
     = bring_annual_costs_to_base_year example_model p"
  by (simp_all add: SystemCostPerPeriod_def calc_sys_costs_per_period_def
      zero_demand_model_tp_costs)
    (simp_all add: zero_demand_model_def calc_annual_costs_in_period_def
      bring_annual_costs_to_base_year_def component_at_def)

theorem EnergyCostReal_per_MWh_division_witness:
  "EnergyCostReal_per_MWh example_model ''P1'' = Inr (18020 / 876000)
   \<and> 0 < (\<Sum>z\<leftarrow>LOAD_ZONES example_model. projr (zone_total_demand_in_period_mwh example_model z ''P1''))
   \<and> ''P1'' \<in> set (PERIODS zero_demand_model)
   \<and> zone_demand_mw zero_demand_model (''Z1'', ''T1'') = Some 0
   \<and> SystemCostPerPeriod zero_demand_model ''P1'' = Inr 18020
   \<and> bring_annual_costs_to_base_year zero_demand_model ''P1'' = Inr 1
   \<and> EnergyCostReal_per_MWh zero_demand_model ''P1'' = Inl ZeroDivisionError"
proof -
  have e: "EnergyCostReal_per_MWh example_model ''P1'' = Inr (18020 / 876000)"
    by (simp add: EnergyCostReal_per_MWh_def example_model_SystemCostPerPeriod
        example_model_bring_annual example_model_SystemDemand py_div_def)
  show ?thesis
    using EnergyCostReal_per_MWh_division [where m = example_model and p = "''P1''" and v = "18020 / 876000"]
      EnergyCostReal_per_MWh_division [where m = zero_demand_model and p = "''P1''" and s = 18020 and b = 1] e
    by (simp add: zero_demand_model_simps zero_demand_model_costs
        example_model_SystemCostPerPeriod example_model_bring_annual)
qed

section \<open>Registration and the build phases\<close>

lemma registry_get_set:
  "registry_get r (registry_set reg l mdl) = (if r = reg then Some l else registry_get r mdl)"
  by (cases r; cases reg) simp_all

lemma registry_get_dynamic_components:
  "registry_get r (financials_define_dynamic_components mdl) = registry_get r mdl"
  "registry_get r (load_zones_define_dynamic_components mdl) = registry_get r mdl"
  by (cases r; simp add: financials_define_dynamic_components_def
        load_zones_define_dynamic_components_def)+

text \<open>
  C5, as the claim states it, fails: the dynamic lists are plain lists and nothing freezes
  them. On the model whose aggregation components have been defined, registering a cost
  component raises no error at all (so no \<open>RegistrationAfterFreeze\<close>) and the list is
  extended.
\<close>

theorem registration_after_aggregation_succeeds:
  "\<not> isl (registry_append CostComponentsPerTP ''FuelCosts'' aggregated_model)
   \<and> registry_append CostComponentsPerTP ''FuelCosts'' aggregated_model
        \<noteq> Inl RegistrationAfterFreeze
   \<and> ''SystemCost'' \<in> set (declared aggregated_model)
   \<and> Cost_Components_Per_TP
        (projr (registry_append CostComponentsPerTP ''FuelCosts'' aggregated_model))
        = Some [''FuelCosts'']"
  by (simp add: registry_append_def aggregated_model_def
      financials_define_dynamic_components_def load_zones_define_dynamic_components_def
      financials_define_dynamic_lists_def load_zones_define_dynamic_lists_def)

text \<open>
  C5, amended. No registry is frozen: for every power or cost component registry that
  exists, a registration made after the aggregation components have been defined raises
  no error and appends the name at the end of the list; the previously registered entries
  of the registry stay as they were, in front of it, and the other registries are
  unchanged.
\<close>

theorem registration_appends_and_keeps_entries:
  assumes "registry_get reg mdl = Some l"
  shows "\<exists>mdl'. registry_append reg name
                  (financials_define_dynamic_components
                    (load_zones_define_dynamic_components mdl)) = Inr mdl'
            \<and> registry_get reg mdl' = Some (l @ [name])
            \<and> (\<forall>r. r \<noteq> reg \<longrightarrow> registry_get r mdl' = registry_get r mdl)"
  using assms
  by (simp add: registry_append_def registry_get_dynamic_components registry_get_set)

theorem registration_appends_and_keeps_entries_witness:
  "registry_get ZonePowerWithdrawals example_model = Some [''zone_demand_mw'']
   \<and> (\<exists>mdl'. registry_append ZonePowerWithdrawals ''TXPowerNet''
                  (financials_define_dynamic_components
                    (load_zones_define_dynamic_components example_model)) = Inr mdl'
            \<and> registry_get ZonePowerWithdrawals mdl' = Some [''zone_demand_mw'', ''TXPowerNet'']
            \<and> registry_get ZonePowerInjections mdl' = registry_get ZonePowerInjections example_model)"
proof -
  have h: "registry_get ZonePowerWithdrawals example_model = Some [''zone_demand_mw'']"
    by (simp add: example_model_def)
  show ?thesis
    using registration_appends_and_keeps_entries [OF h, of "''TXPowerNet''"] h by auto
qed

text \<open>
  C6. When \<open>define_components\<close> of load_zones runs, \<open>zone_demand_mw\<close> is appended to
  exactly one list. If the distributed-bus withdrawal list exists it goes there and the
  central list is untouched; if it does not exist, the absence is caught at the probe and
  the name goes to the central-bus withdrawal list (which \<open>define_dynamic_lists\<close> has
  created), the distributed list staying absent. In both cases the function returns
  without a fault.
\<close>

theorem zone_demand_registered_in_one_list:
  "(Distributed_Power_Withdrawals mdl = Some dw \<longrightarrow>
      (\<exists>mdl'. load_zones_define_components mdl = Inr mdl'
         \<and> Distributed_Power_Withdrawals mdl' = Some (dw @ [''zone_demand_mw''])
         \<and> Zone_Power_Withdrawals mdl' = Zone_Power_Withdrawals mdl))
   \<and> (Distributed_Power_Withdrawals mdl = None \<and> Zone_Power_Withdrawals mdl = Some zw \<longrightarrow>
      (\<exists>mdl'. load_zones_define_components mdl = Inr mdl'
         \<and> Zone_Power_Withdrawals mdl' = Some (zw @ [''zone_demand_mw''])
         \<and> Distributed_Power_Withdrawals mdl' = None))"
  by (simp add: load_zones_define_components_def Let_def)

theorem zone_demand_registered_in_one_list_witness:
  "Distributed_Power_Withdrawals (load_zones_define_dynamic_lists example_model) = None
   \<and> Zone_Power_Withdrawals (load_zones_define_dynamic_lists example_model) = Some []
   \<and> (\<exists>mdl'. load_zones_define_components (load_zones_define_dynamic_lists example_model) = Inr mdl'
         \<and> Zone_Power_Withdrawals mdl' = Some [''zone_demand_mw'']
         \<and> Distributed_Power_Withdrawals mdl' = None)
   \<and> Distributed_Power_Withdrawals
        ((load_zones_define_dynamic_lists example_model)\<lparr>Distributed_Power_Withdrawals := Some []\<rparr>)
        = Some []
   \<and> (\<exists>mdl'. load_zones_define_components
          ((load_zones_define_dynamic_lists example_model)\<lparr>Distributed_Power_Withdrawals := Some []\<rparr>)
            = Inr mdl'
         \<and> Distributed_Power_Withdrawals mdl' = Some [''zone_demand_mw'']
         \<and> Zone_Power_Withdrawals mdl' = Some [])"
proof -
  have h: "Distributed_Power_Withdrawals (load_zones_define_dynamic_lists example_model) = None"
    "Zone_Power_Withdrawals (load_zones_define_dynamic_lists example_model) = Some []"
    by (simp_all add: load_zones_define_dynamic_lists_def example_model_def)
  show ?thesis
    using zone_demand_registered_in_one_list [of "load_zones_define_dynamic_lists example_model" _ "[]"]
      zone_demand_registered_in_one_list [of "(load_zones_define_dynamic_lists example_model)\<lparr>Distributed_Power_Withdrawals := Some []\<rparr>" "[]"]
      h
    by simp
qed

text \<open>With neither withdrawal list on the object, the fallback append itself fails.\<close>

lemma load_zones_define_components_without_lists:
  "Distributed_Power_Withdrawals mdl = None \<Longrightarrow> Zone_Power_Withdrawals mdl = None \<Longrightarrow>
     load_zones_define_components mdl = Inl AttributeError"
  by (simp add: load_zones_define_components_def Let_def)

section \<open>The mandatory financial parameters\<close>

lemma bring_annual_missing_dollar_year:
  assumes "p \<in> set (PERIODS m)" and "discount_rate m = Some dr" and "0 \<le> dr"
    and "dollar_year m = None"
  shows "bring_annual_costs_to_base_year m p = Inl MissingDataError"
proof -
  obtain u where "uniform_series_to_present_value dr (period_length_years m p) = Inr u"
  proof (cases "dr = 0")
    case True
    then show ?thesis using that by (simp add: uniform_series_to_present_value_def)
  next
    case False
    with assms(3) have "0 < 1 + dr" by simp
    with False show ?thesis
      using that by (simp add: uniform_series_to_present_value_def py_pow_pos py_div_def)
  qed
  with assms(1,2,4) show ?thesis
    by (simp add: bring_annual_costs_to_base_year_def param_value_def)
qed

lemma scalar_param_domain_ok:
  "scalar_param_domain a = Inr () \<longleftrightarrow> (\<forall>v. a = Some v \<longrightarrow> 0 \<le> v)"
  by (cases a) (auto simp add: scalar_param_domain_def within_NonNegativeReals_def)

lemma scalar_param_domain_cases:
  "scalar_param_domain a = Inr () \<or> scalar_param_domain a = Inl ValueError"
  by (cases a) (auto simp add: scalar_param_domain_def within_NonNegativeReals_def)

lemma financials_construct_missing:
  assumes miss: "base_financial_year m = None \<or> dollar_year m = None \<or> discount_rate m = None"
    and per: "PERIODS m \<noteq> []"
    and d1: "scalar_param_domain (base_financial_year m) = Inr ()"
    and d2: "scalar_param_domain (dollar_year m) = Inr ()"
    and d3: "scalar_param_domain (discount_rate m) = Inr ()"
  shows "financials_construct m = Inl MissingDataError"
proof (cases "base_financial_year m = None \<or> discount_rate m = None")
  case True
  then have "min_data_check [base_financial_year m, discount_rate m] = Inl MissingDataError"
    by (auto simp add: min_data_check_def)
  then show ?thesis
    by (simp add: financials_construct_def d1 d2 d3)
next
  case False
  then obtain dr where dr: "discount_rate m = Some dr" and b: "base_financial_year m \<noteq> None"
    by auto
  from False miss have dy: "dollar_year m = None" by auto
  have nn: "0 \<le> dr" using d3 dr by (simp add: scalar_param_domain_ok)
  have chk: "min_data_check [base_financial_year m, discount_rate m] = Inr ()"
    using dr b by (auto simp add: min_data_check_def)
  obtain p ps where ps: "PERIODS m = p # ps"
    using per by (cases "PERIODS m") auto
  then have "p \<in> set (PERIODS m)" by simp
  then have "bring_annual_costs_to_base_year m p = Inl MissingDataError"
    using dr nn dy by (rule bring_annual_missing_dollar_year)
  then have "all_ok (map (bring_annual_costs_to_base_year m) (PERIODS m)) = Inl MissingDataError"
    by (simp add: ps)
  then show ?thesis
    by (simp add: financials_construct_def d1 d2 d3 chk)
qed

text \<open>
  C7. Each of \<open>base_financial_year\<close>, \<open>dollar_year\<close> and \<open>discount_rate\<close> is mandatory:
  in a model with at least one period, if any one of the three has no value the
  construction of the financial components fails, so no instance exists to be solved; and
  when the values that are loaded lie in their domain the fault is \<open>MissingDataError\<close>
  (raised by the data check for \<open>base_financial_year\<close> and \<open>discount_rate\<close>, and by the
  first read of \<open>dollar_year\<close> in the initialiser of
  \<open>bring_annual_costs_to_base_year\<close>).
\<close>

theorem missing_financial_parameter_aborts_construction:
  "(base_financial_year m = None \<or> dollar_year m = None \<or> discount_rate m = None)
     \<and> PERIODS m \<noteq> []
   \<longrightarrow> isl (financials_construct m)
       \<and> ((\<forall>v. base_financial_year m = Some v \<longrightarrow> 0 \<le> v)
            \<and> (\<forall>v. dollar_year m = Some v \<longrightarrow> 0 \<le> v)
            \<and> (\<forall>v. discount_rate m = Some v \<longrightarrow> 0 \<le> v)
          \<longrightarrow> financials_construct m = Inl MissingDataError)"
proof (intro impI conjI)
  assume a: "(base_financial_year m = None \<or> dollar_year m = None \<or> discount_rate m = None)
     \<and> PERIODS m \<noteq> []"
  show "isl (financials_construct m)"
  proof (cases "scalar_param_domain (base_financial_year m) = Inr ()
      \<and> scalar_param_domain (dollar_year m) = Inr ()
      \<and> scalar_param_domain (discount_rate m) = Inr ()")
    case True
    with a have "financials_construct m = Inl MissingDataError"
      by (intro financials_construct_missing) simp_all
    then show ?thesis by simp
  next
    case False
    then show ?thesis
      using scalar_param_domain_cases [of "base_financial_year m"]
        scalar_param_domain_cases [of "dollar_year m"]
        scalar_param_domain_cases [of "discount_rate m"]
      by (auto simp add: financials_construct_def)
  qed
next
  assume a: "(base_financial_year m = None \<or> dollar_year m = None \<or> discount_rate m = None)
     \<and> PERIODS m \<noteq> []"
    and d: "(\<forall>v. base_financial_year m = Some v \<longrightarrow> 0 \<le> v)
            \<and> (\<forall>v. dollar_year m = Some v \<longrightarrow> 0 \<le> v)
            \<and> (\<forall>v. discount_rate m = Some v \<longrightarrow> 0 \<le> v)"
  then show "financials_construct m = Inl MissingDataError"
    by (intro financials_construct_missing) (simp_all add: scalar_param_domain_ok)
qed

theorem missing_financial_parameter_aborts_construction_witness:
  "dollar_year missing_dollar_year_model = None
   \<and> PERIODS missing_dollar_year_model \<noteq> []
   \<and> base_financial_year missing_dollar_year_model = Some 2020
   \<and> discount_rate missing_dollar_year_model = Some 0
   \<and> isl (financials_construct missing_dollar_year_model)
   \<and> financials_construct missing_dollar_year_model = Inl MissingDataError
   \<and> base_financial_year (example_model\<lparr>base_financial_year := None\<rparr>) = None
   \<and> financials_construct (example_model\<lparr>base_financial_year := None\<rparr>) = Inl MissingDataError
   \<and> discount_rate (example_model\<lparr>discount_rate := None\<rparr>) = None
   \<and> financials_construct (example_model\<lparr>discount_rate := None\<rparr>) = Inl MissingDataError"
proof -
  have a: "isl (financials_construct missing_dollar_year_model)
      \<and> financials_construct missing_dollar_year_model = Inl MissingDataError"
    using missing_financial_parameter_aborts_construction [of missing_dollar_year_model]
    by (simp add: missing_dollar_year_model_def example_model_def)
  have b: "financials_construct (example_model\<lparr>base_financial_year := None\<rparr>) = Inl MissingDataError"
    using missing_financial_parameter_aborts_construction [of "example_model\<lparr>base_financial_year := None\<rparr>"]
    by (simp add: example_model_def)
  have c: "financials_construct (example_model\<lparr>discount_rate := None\<rparr>) = Inl MissingDataError"
    using missing_financial_parameter_aborts_construction [of "example_model\<lparr>discount_rate := None\<rparr>"]
    by (simp add: example_model_def)
  show ?thesis
    using a b c by (simp add: missing_dollar_year_model_def example_model_def)
qed


end
